theory Spec2Isabelle
  imports Main "HOL-Library.Word"
begin

unbundle bit_operations_syntax

section \<open>The binary loader of \<open>includes/loader.cpp\<close>\<close>

text \<open>
  \<open>loader.cpp\<close> loads an executable through libbfd: \<open>open_bfd\<close> opens and probes the
  file, \<open>load_symbols_bfd\<close> reads the static symbol table, \<open>load_binary_bfd\<close> runs the
  stages in order and closes the handle, and \<open>load_binary\<close> is the public entry.

  The file is embedded as written, with its misspelt identifiers read as the names they
  stand for: \<open>fprinitf\<close> is \<open>fprintf\<close>, \<open>asymobl\<close> is \<open>asymbol\<close>,
  \<open>bfd_target_unkown_flavour\<close> is \<open>bfd_target_unknown_flavour\<close>, the field \<open>flag\<close> of a
  symbol is libbfd's \<open>flags\<close>, \<open>std::string(name)\<close> in \<open>load_binary_bfd\<close> is
  \<open>std::string(fname)\<close>, and \<open>bfd -> xvec\<close>, \<open>bfd -> arch_str\<close> there are
  \<open>bfd_h -> xvec\<close> and \<open>bin -> arch_str\<close>.

  The messages written to \<open>stderr\<close> are not modelled: they do not reach the caller of
  \<open>load_binary\<close>, whose only results are the status code and the \<open>Binary\<close> it passed in.
\<close>

subsection \<open>The library: what libbfd reports about a file\<close>

type_synonym bfd_vma = "64 word"
type_synonym flagword = "32 word"

text \<open>\<open>enum bfd_flavour\<close> of \<open>bfd.h\<close>.\<close>

datatype bfd_flavour =
    bfd_target_unknown_flavour
  | bfd_target_aout_flavour
  | bfd_target_coff_flavour
  | bfd_target_ecoff_flavour
  | bfd_target_xcoff_flavour
  | bfd_target_elf_flavour
  | bfd_target_tekhex_flavour
  | bfd_target_srec_flavour
  | bfd_target_verilog_flavour
  | bfd_target_ihex_flavour
  | bfd_target_som_flavour
  | bfd_target_msdos_flavour
  | bfd_target_evax_flavour
  | bfd_target_mmo_flavour
  | bfd_target_mach_o_flavour
  | bfd_target_pef_flavour
  | bfd_target_pef_xlib_flavour
  | bfd_target_sym_flavour

text \<open>
  The machine codes and the symbol flag that the loader names, with the values \<open>bfd.h\<close>
  gives them: \<open>bfd_mach_i386_i386\<close> is \<open>(1 << 2)\<close>, \<open>bfd_mach_x86_64\<close> is \<open>(1 << 3)\<close>
  and \<open>BSF_FUNCTION\<close> is \<open>(1 << 3)\<close>. (In the same header \<open>(1 << 1)\<close> is
  \<open>bfd_mach_i386_i8086\<close>, which the loader does not name.) The machine code of
  \<open>bfd_arch_info_type\<close> is an \<open>unsigned long\<close>.
\<close>

definition bfd_mach_i386_i386 :: "64 word" where
  "bfd_mach_i386_i386 = push_bit 2 1"

definition bfd_mach_x86_64 :: "64 word" where
  "bfd_mach_x86_64 = push_bit 3 1"

definition BSF_FUNCTION :: flagword where
  "BSF_FUNCTION = push_bit 3 1"

text \<open>
  An entry of the canonical symbol table (\<open>asymbol\<close>): its name, its flags, its value and
  the address of the section it belongs to. \<open>bfd_asymbol_value\<close> is the macro of \<open>bfd.h\<close>,
  \<open>sym->section->vma + sym->value\<close>, in 64-bit arithmetic.
\<close>

record asymbol =
  name :: string
  flags :: flagword
  "value" :: bfd_vma
  section_vma :: bfd_vma

definition bfd_asymbol_value :: "asymbol \<Rightarrow> bfd_vma" where
  "bfd_asymbol_value sy = section_vma sy + value sy"

text \<open>
  Modelled from the spec: \<open>loader.h\<close>, which declares \<open>Symbol\<close>, \<open>Section\<close> and \<open>Binary\<close>, is
  not among the sources. The fields of \<open>Symbol\<close> and \<open>Binary\<close> are the ones \<open>loader.cpp\<close>
  assigns, with the enumerators it names; \<open>Section\<close> has the fields of section 3 of the
  specification (name, start address, size in bytes, permission flags).
  \<open>BIN_TYPE_UNSET\<close> and \<open>ARCH_UNSET\<close> stand for the enumerators that \<open>loader.cpp\<close> never
  assigns: the value of the field in a \<open>Binary\<close> that the caller created empty.
\<close>

datatype SymbolType = SYM_TYPE_FUN

record Symbol =
  type :: SymbolType
  name :: string
  addr :: "64 word"

record Section =
  name :: string
  start_address :: "64 word"
  size_in_bytes :: "64 word"
  permission_flags :: "bool \<times> bool \<times> bool"

datatype BinaryType = BIN_TYPE_UNSET | BIN_TYPE_ELF | BIN_TYPE_PE

datatype BinaryArch = ARCH_UNSET | ARCH_X86

record Binary =
  filename :: string
  type :: BinaryType
  type_str :: string
  arch :: BinaryArch
  arch_str :: string
  bits :: nat
  entry :: "64 word"
  sections :: "Section list"
  symbols :: "Symbol list"

text \<open>
  What the queries of libbfd answer for one file: the library decodes the file, the loader
  only asks.
  \<^item> \<open>check_format_object\<close>: the result of \<open>bfd_check_format(bfd_h, bfd_object)\<close>;
  \<^item> \<open>xvec_flavour\<close>, \<open>xvec_name\<close>: \<open>bfd_h->xvec->flavour\<close> and \<open>bfd_h->xvec->name\<close>;
  \<^item> \<open>get_start_address\<close>: \<open>bfd_get_start_address(bfd_h)\<close>;
  \<^item> \<open>printable_name\<close>, \<open>mach\<close>: the two fields read of \<open>bfd_get_arch_info(bfd_h)\<close>;
  \<^item> \<open>get_symtab_upper_bound\<close>: the \<open>long\<close> that \<open>bfd_get_symtab_upper_bound\<close> returns,
    negative on error;
  \<^item> \<open>canonicalize_symtab\<close>: \<open>None\<close> when \<open>bfd_canonicalize_symtab\<close> returns a negative
    count, otherwise the \<open>nsyms\<close> entries it stores in the table, in the table's order;
  \<^item> \<open>get_dynamic_symtab_upper_bound\<close>, \<open>canonicalize_dynamic_symtab\<close>: the same two
    queries on the dynamic symbol table;
  \<^item> \<open>read_sections\<close>: the sections the library enumerates, \<open>None\<close> when reading them
    fails.
\<close>

record bfd_file =
  check_format_object :: bool
  xvec_flavour :: bfd_flavour
  xvec_name :: string
  get_start_address :: bfd_vma
  printable_name :: string
  mach :: "64 word"
  get_symtab_upper_bound :: int
  canonicalize_symtab :: "asymbol list option"
  get_dynamic_symtab_upper_bound :: int
  canonicalize_dynamic_symtab :: "asymbol list option"
  read_sections :: "Section list option"

text \<open>
  An open handle (\<open>bfd *\<close>): the identity \<open>bfd_openr\<close> gave it and the file behind it.
  A null pointer is \<open>None\<close> of \<open>bfd option\<close>.
\<close>

record bfd =
  handle :: nat
  contents :: bfd_file

text \<open>
  The surroundings of a load, which the loader does not control: what \<open>bfd_openr\<close> finds
  at a path (\<open>None\<close> when it returns a null pointer) and whether \<open>malloc\<close> of a number of
  bytes succeeds.
\<close>

record env =
  openr :: "string \<Rightarrow> bfd_file option"
  malloc_ok :: "int \<Rightarrow> bool"

text \<open>
  The state of the process that the loader changes: the function-local
  \<open>static int bfd_init_flag\<close> of \<open>open_bfd\<close>, and the calls made so far to the three library
  functions that initialise the library and acquire and release handles, oldest first.
\<close>

datatype lib_call = Call_bfd_init | Call_bfd_openr nat | Call_bfd_close nat

record process =
  bfd_init_flag :: int
  calls :: "lib_call list"

definition process_start :: process where
  "process_start = \<lparr>bfd_init_flag = 0, calls = []\<rparr>"

definition bfd_init :: "process \<Rightarrow> process" where
  "bfd_init p = p\<lparr>calls := calls p @ [Call_bfd_init]\<rparr>"

text \<open>
  \<open>bfd_openr\<close>: a null pointer when the file cannot be opened; otherwise a new handle,
  numbered by the length of the call history, which no earlier handle has.
\<close>

definition bfd_openr :: "env \<Rightarrow> string \<Rightarrow> process \<Rightarrow> bfd option \<times> process" where
  "bfd_openr e fname p =
     (case openr e fname of
        None \<Rightarrow> (None, p)
      | Some f \<Rightarrow>
          (Some \<lparr>handle = length (calls p), contents = f\<rparr>,
           p\<lparr>calls := calls p @ [Call_bfd_openr (length (calls p))]\<rparr>))"

definition bfd_close :: "bfd \<Rightarrow> process \<Rightarrow> process" where
  "bfd_close bfd_h p = p\<lparr>calls := calls p @ [Call_bfd_close (handle bfd_h)]\<rparr>"

subsection \<open>\<open>open_bfd\<close>\<close>

text \<open>
  Lines 14 to 51. The three early \<open>return NULL\<close> are the three \<open>None\<close> results; the two after
  a successful \<open>bfd_openr\<close> return without a call of \<open>bfd_close\<close>, as the source does.
  \<open>bfd_set_error(bfd_error_no_error)\<close> only resets the library's error indicator, which no
  result depends on.
\<close>

definition open_bfd :: "env \<Rightarrow> process \<Rightarrow> string \<Rightarrow> bfd option \<times> process" where
  "open_bfd e p fname =
     (let p1 = (if bfd_init_flag p = 0 then (bfd_init p)\<lparr>bfd_init_flag := 1\<rparr> else p)
      in case bfd_openr e fname p1 of
           (None, p2) \<Rightarrow> (None, p2)
         | (Some bfd_h, p2) \<Rightarrow>
             if \<not> check_format_object (contents bfd_h) then (None, p2)
             else if xvec_flavour (contents bfd_h) = bfd_target_unknown_flavour then (None, p2)
             else (Some bfd_h, p2))"

subsection \<open>\<open>load_symbols_bfd\<close>\<close>

text \<open>
  The loop of lines 99 to 108 over the entries \<open>bfd_symtab[0]\<close>, ..., \<open>bfd_symtab[nsyms - 1]\<close>:
  an entry whose flags have the bit \<open>BSF_FUNCTION\<close> is pushed at the back of
  \<open>bin -> symbols\<close>, any other entry is passed over.
\<close>

fun filter_functions :: "asymbol list \<Rightarrow> Binary \<Rightarrow> Binary" where
  "filter_functions [] bin = bin"
| "filter_functions (s # bfd_symtab) bin =
     (if flags s AND BSF_FUNCTION \<noteq> 0
      then filter_functions bfd_symtab
             (bin\<lparr>symbols := symbols bin @
                [\<lparr>Symbol.type = SYM_TYPE_FUN, name = asymbol.name s,
                  addr = bfd_asymbol_value s\<rparr>]\<rparr>)
      else filter_functions bfd_symtab bin)"

text \<open>
  Lines 67 to 121. The result is the status (\<open>0\<close> or \<open>-1\<close>) and the \<open>Binary\<close> behind the
  pointer \<open>bin\<close> as the call leaves it.
\<close>

definition load_symbols_bfd :: "env \<Rightarrow> bfd \<Rightarrow> Binary \<Rightarrow> int \<times> Binary" where
  "load_symbols_bfd e bfd_h bin =
     (let n = get_symtab_upper_bound (contents bfd_h)
      in if n < 0 then (- 1, bin)
         else if n \<noteq> 0 then
           (if \<not> malloc_ok e n then (- 1, bin)
            else case canonicalize_symtab (contents bfd_h) of
                   None \<Rightarrow> (- 1, bin)
                 | Some bfd_symtab \<Rightarrow> (0, filter_functions bfd_symtab bin))
         else (0, bin))"

subsection \<open>The two stages that the source calls and does not define\<close>

text \<open>
  Modelled from the spec: \<open>load_dynsym_bfd\<close> is called at line 194 and defined nowhere in the
  sources. Section 4.3: dynamic symbol extraction follows the identical contract as the
  static one but reads the dynamic symbol table, and the absence of that table is an empty
  sequence, not an error.
\<close>

definition load_dynsym_bfd :: "env \<Rightarrow> bfd \<Rightarrow> Binary \<Rightarrow> int \<times> Binary" where
  "load_dynsym_bfd e bfd_h bin =
     (let n = get_dynamic_symtab_upper_bound (contents bfd_h)
      in if n < 0 then (- 1, bin)
         else if n \<noteq> 0 then
           (if \<not> malloc_ok e n then (- 1, bin)
            else case canonicalize_dynamic_symtab (contents bfd_h) of
                   None \<Rightarrow> (- 1, bin)
                 | Some bfd_symtab \<Rightarrow> (0, filter_functions bfd_symtab bin))
         else (0, bin))"

text \<open>
  Modelled from the spec: \<open>load_sections_bfd\<close> is called at line 196 and defined nowhere in
  the sources. Section 4.4: every section the format exposes is recorded, in order, a section
  of size zero included; only a read failure of the handle is an error.
\<close>

definition load_sections_bfd :: "bfd \<Rightarrow> Binary \<Rightarrow> int \<times> Binary" where
  "load_sections_bfd bfd_h bin =
     (case read_sections (contents bfd_h) of
        None \<Rightarrow> (- 1, bin)
      | Some secs \<Rightarrow> (0, bin\<lparr>sections := sections bin @ secs\<rparr>))"

subsection \<open>\<open>load_binary_bfd\<close> and \<open>load_binary\<close>\<close>

text \<open>
  The label \<open>cleanup\<close> (lines 204 to 207) closes the handle when it is not null and returns
  \<open>ret\<close>; the label \<open>fail\<close> sets \<open>ret = -1\<close> and falls through to it.
\<close>

definition goto_cleanup :: "int \<Rightarrow> bfd option \<Rightarrow> process \<Rightarrow> Binary \<Rightarrow> int \<times> process \<times> Binary" where
  "goto_cleanup ret bfd_h p bin =
     (case bfd_h of
        None \<Rightarrow> (ret, p, bin)
      | Some h \<Rightarrow> (ret, bfd_close h p, bin))"

definition goto_fail :: "bfd option \<Rightarrow> process \<Rightarrow> Binary \<Rightarrow> int \<times> process \<times> Binary" where
  "goto_fail bfd_h p bin = goto_cleanup (- 1) bfd_h p bin"

text \<open>
  Lines 141 to 208. Each \<open>switch\<close> is a chain of comparisons in the order of its
  \<open>case\<close> labels, with \<open>Some\<close> of the updated \<open>Binary\<close> where the branch ends in
  \<open>break\<close> and \<open>None\<close> where it ends in \<open>goto fail\<close>. The results of \<open>load_symbols_bfd\<close> and \<open>load_dynsym_bfd\<close> are dropped,
  as at lines 193 and 194; the result of \<open>load_sections_bfd\<close> is tested at line 196.
  The parameter \<open>type\<close> is never read.
\<close>

definition load_binary_bfd ::
    "env \<Rightarrow> process \<Rightarrow> string \<Rightarrow> Binary \<Rightarrow> BinaryType \<Rightarrow> int \<times> process \<times> Binary" where
  "load_binary_bfd e p fname bin ty =
     (case open_bfd e p fname of
        (None, p1) \<Rightarrow> goto_fail None p1 bin
      | (Some bfd_h, p1) \<Rightarrow>
          (let bin1 = bin\<lparr>filename := fname,
                          entry := get_start_address (contents bfd_h),
                          type_str := xvec_name (contents bfd_h)\<rparr>
           in case (if xvec_flavour (contents bfd_h) = bfd_target_elf_flavour
                    then Some (bin1\<lparr>Binary.type := BIN_TYPE_ELF\<rparr>)
                    else if xvec_flavour (contents bfd_h) = bfd_target_coff_flavour
                    then Some (bin1\<lparr>Binary.type := BIN_TYPE_PE\<rparr>)
                    else None) of
                None \<Rightarrow> goto_fail (Some bfd_h) p1 bin1
              | Some bin2 \<Rightarrow>
                  (let bin3 = bin2\<lparr>arch_str := printable_name (contents bfd_h)\<rparr>
                   in case (if mach (contents bfd_h) = bfd_mach_i386_i386
                            then Some (bin3\<lparr>arch := ARCH_X86, bits := 32\<rparr>)
                            else if mach (contents bfd_h) = bfd_mach_x86_64
                            then Some (bin3\<lparr>arch := ARCH_X86, bits := 64\<rparr>)
                            else None) of
                        None \<Rightarrow> goto_fail (Some bfd_h) p1 bin3
                      | Some bin4 \<Rightarrow>
                          (let bin5 = snd (load_symbols_bfd e bfd_h bin4);
                               bin6 = snd (load_dynsym_bfd e bfd_h bin5);
                               (r, bin7) = load_sections_bfd bfd_h bin6
                           in if r < 0 then goto_fail (Some bfd_h) p1 bin7
                              else goto_cleanup 0 (Some bfd_h) p1 bin7))))"

definition load_binary ::
    "env \<Rightarrow> process \<Rightarrow> string \<Rightarrow> Binary \<Rightarrow> BinaryType \<Rightarrow> int \<times> process \<times> Binary" where
  "load_binary e p fname bin ty = load_binary_bfd e p fname bin ty"

subsection \<open>A process that loads several files\<close>

text \<open>
  \<open>open_bfd\<close> is \<open>static\<close>, so a program reaches it through \<open>load_binary\<close> only. A run of
  the program is a list of calls of \<open>load_binary\<close>, each on the process state the previous
  one left.
\<close>

fun load_all :: "env \<Rightarrow> process \<Rightarrow> (string \<times> Binary \<times> BinaryType) list \<Rightarrow> process" where
  "load_all e p [] = p"
| "load_all e p ((fname, bin, ty) # reqs) =
     load_all e (fst (snd (load_binary e p fname bin ty))) reqs"

subsection \<open>Example files\<close>

text \<open>
  The scenario of section 8 of the specification: a 64-bit x86 ELF executable with entry
  point \<open>0x401020\<close> and a function symbol \<open>main\<close> at \<open>0x401000\<close>. Its symbol table also has
  a section symbol, a data object and a second function, so that filtering has something
  to discard. The flag values are those of \<open>bfd.h\<close>: \<open>BSF_GLOBAL = 1 << 1\<close>,
  \<open>BSF_FUNCTION = 1 << 3\<close>, \<open>BSF_SECTION_SYM = 1 << 8\<close>, \<open>BSF_OBJECT = 1 << 16\<close>.
  The machine codes of the example files are written as the numbers libbfd reports:
  \<open>8\<close> for x86-64, \<open>4\<close> for i386, \<open>0\<close> for a machine the loader does not know.
\<close>

definition example_symtab :: "asymbol list" where
  "example_symtab =
     [\<lparr>asymbol.name = ''.text'', flags = 0x100, value = 0, section_vma = 0x401000\<rparr>,
      \<lparr>asymbol.name = ''main'', flags = 0x0A, value = 0, section_vma = 0x401000\<rparr>,
      \<lparr>asymbol.name = ''counter'', flags = 0x10002, value = 0x10, section_vma = 0x404000\<rparr>,
      \<lparr>asymbol.name = ''helper'', flags = 0x08, value = 0x36, section_vma = 0x401000\<rparr>]"

definition example_sections :: "Section list" where
  "example_sections =
     [\<lparr>Section.name = ''.text'', start_address = 0x401000, size_in_bytes = 0x200,
       permission_flags = (True, False, True)\<rparr>,
      \<lparr>Section.name = ''.data'', start_address = 0x404000, size_in_bytes = 0x20,
       permission_flags = (True, True, False)\<rparr>]"

definition file_elf64 :: bfd_file where
  "file_elf64 =
     \<lparr>check_format_object = True, xvec_flavour = bfd_target_elf_flavour,
      xvec_name = ''elf64-x86-64'', get_start_address = 0x401020,
      printable_name = ''i386:x86-64'', mach = 8,
      get_symtab_upper_bound = 40, canonicalize_symtab = Some example_symtab,
      get_dynamic_symtab_upper_bound = 0, canonicalize_dynamic_symtab = Some [],
      read_sections = Some example_sections\<rparr>"

text \<open>A 32-bit PE executable, a stripped copy of the ELF file, and files that fail at one stage each.\<close>

definition file_pe32 :: bfd_file where
  "file_pe32 = file_elf64
     \<lparr>xvec_flavour := bfd_target_coff_flavour, xvec_name := ''pei-i386'',
      printable_name := ''i386'', mach := 4\<rparr>"

definition file_stripped :: bfd_file where
  "file_stripped = file_elf64\<lparr>get_symtab_upper_bound := 0, canonicalize_symtab := Some []\<rparr>"

definition file_text :: bfd_file where
  "file_text = file_elf64
     \<lparr>check_format_object := False, xvec_flavour := bfd_target_unknown_flavour\<rparr>"

definition file_mach_o :: bfd_file where
  "file_mach_o = file_elf64
     \<lparr>xvec_flavour := bfd_target_mach_o_flavour, xvec_name := ''mach-o-x86-64''\<rparr>"

definition file_arm_elf :: bfd_file where
  "file_arm_elf = file_elf64
     \<lparr>xvec_name := ''elf32-littlearm'', printable_name := ''armv7'', mach := 0\<rparr>"

definition file_bad_symtab :: bfd_file where
  "file_bad_symtab = file_elf64\<lparr>get_symtab_upper_bound := - 1, canonicalize_symtab := None\<rparr>"

definition file_bad_sections :: bfd_file where
  "file_bad_sections = file_elf64\<lparr>read_sections := None\<rparr>"

definition example_env :: env where
  "example_env =
     \<lparr>openr = (\<lambda>fname.
         if fname = ''a.out'' then Some file_elf64
         else if fname = ''prog.exe'' then Some file_pe32
         else if fname = ''stripped'' then Some file_stripped
         else if fname = ''notes.txt'' then Some file_text
         else if fname = ''prog.macho'' then Some file_mach_o
         else if fname = ''arm.elf'' then Some file_arm_elf
         else if fname = ''badsyms'' then Some file_bad_symtab
         else if fname = ''badsecs'' then Some file_bad_sections
         else None),
      malloc_ok = (\<lambda>n. True)\<rparr>"

text \<open>A \<open>Binary\<close> as the caller creates it, with nothing set.\<close>

definition Binary_empty :: Binary where
  "Binary_empty =
     \<lparr>filename = [], Binary.type = BIN_TYPE_UNSET, type_str = [], arch = ARCH_UNSET,
      arch_str = [], bits = 0, entry = 0, sections = [], symbols = []\<rparr>"

section \<open>The symbol extractor\<close>

text \<open>The loop appends, for each function entry of the table and in the table's order, one \<open>Symbol\<close>.\<close>

lemma filter_functions_append:
  "filter_functions tab bin =
     bin\<lparr>symbols := symbols bin @
       map (\<lambda>s. \<lparr>Symbol.type = SYM_TYPE_FUN, name = asymbol.name s, addr = bfd_asymbol_value s\<rparr>)
         (filter (\<lambda>s. flags s AND BSF_FUNCTION \<noteq> 0) tab)\<rparr>"
  by (induction tab arbitrary: bin) simp_all

lemma load_symbols_bfd_snd:
  "snd (load_symbols_bfd e bfd_h bin) = bin \<or>
   (\<exists>tab. snd (load_symbols_bfd e bfd_h bin) = filter_functions tab bin)"
  by (simp add: load_symbols_bfd_def Let_def split: option.split) blast

lemma load_symbols_bfd_frame:
  "\<exists>new. snd (load_symbols_bfd e bfd_h bin) = bin\<lparr>symbols := symbols bin @ new\<rparr>"
  using load_symbols_bfd_snd [of e bfd_h bin]
proof (elim disjE exE)
  assume "snd (load_symbols_bfd e bfd_h bin) = bin"
  then show ?thesis
    by (intro exI [where x = "[]"]) simp
next
  fix tab
  assume "snd (load_symbols_bfd e bfd_h bin) = filter_functions tab bin"
  then show ?thesis
    by (simp only: filter_functions_append) (rule exI, rule refl)
qed

text \<open>
  C5. In \<open>load_symbols_bfd\<close>, a negative result of the size query
  \<open>bfd_get_symtab_upper_bound\<close> is a hard failure: the extractor returns \<open>-1\<close>. A size of
  exactly zero is not an error: the extractor returns \<open>0\<close> and leaves the \<open>Binary\<close> as it
  was, so a symbol sequence that was empty stays empty (the stripped binary).
\<close>

theorem load_symbols_bfd_size_query:
  "(get_symtab_upper_bound (contents bfd_h) < 0 \<longrightarrow>
      fst (load_symbols_bfd e bfd_h bin) = - 1) \<and>
   (get_symtab_upper_bound (contents bfd_h) = 0 \<longrightarrow>
      load_symbols_bfd e bfd_h bin = (0, bin) \<and>
      (symbols bin = [] \<longrightarrow> symbols (snd (load_symbols_bfd e bfd_h bin)) = []))"
  by (simp add: load_symbols_bfd_def)

theorem load_symbols_bfd_size_query_witness:
  "get_symtab_upper_bound file_bad_symtab < 0 \<and>
   fst (load_symbols_bfd example_env \<lparr>handle = 1, contents = file_bad_symtab\<rparr> Binary_empty) = - 1 \<and>
   get_symtab_upper_bound file_stripped = 0 \<and>
   symbols Binary_empty = [] \<and>
   load_symbols_bfd example_env \<lparr>handle = 1, contents = file_stripped\<rparr> Binary_empty
     = (0, Binary_empty) \<and>
   symbols (snd (load_symbols_bfd example_env \<lparr>handle = 1, contents = file_stripped\<rparr> Binary_empty)) = []"
  using load_symbols_bfd_size_query
          [of "\<lparr>handle = 1, contents = file_bad_symtab\<rparr>" example_env Binary_empty]
        load_symbols_bfd_size_query
          [of "\<lparr>handle = 1, contents = file_stripped\<rparr>" example_env Binary_empty]
  by (simp add: file_bad_symtab_def file_stripped_def file_elf64_def Binary_empty_def)

text \<open>
  C6. When the symbol table is canonicalized successfully (a positive size, the buffer
  allocated, \<open>bfd_canonicalize_symtab\<close> returning the table), \<open>load_symbols_bfd\<close> returns \<open>0\<close>
  and the symbols it adds are exactly the entries of the table whose flags have
  \<open>BSF_FUNCTION\<close>, in the order of the table, each as a \<open>Symbol\<close> with the entry's name, the
  entry's resolved value \<open>bfd_asymbol_value\<close> as address and the kind \<open>SYM_TYPE_FUN\<close>; the other
  entries are dropped.
\<close>

theorem load_symbols_bfd_functions_in_order:
  assumes "0 < get_symtab_upper_bound (contents bfd_h)"
    and "malloc_ok e (get_symtab_upper_bound (contents bfd_h))"
    and "canonicalize_symtab (contents bfd_h) = Some bfd_symtab"
  shows "load_symbols_bfd e bfd_h bin =
     (0, bin\<lparr>symbols := symbols bin @
       map (\<lambda>s. \<lparr>Symbol.type = SYM_TYPE_FUN, name = asymbol.name s, addr = bfd_asymbol_value s\<rparr>)
         (filter (\<lambda>s. flags s AND BSF_FUNCTION \<noteq> 0) bfd_symtab)\<rparr>)"
  using assms by (simp add: load_symbols_bfd_def filter_functions_append)

theorem load_symbols_bfd_functions_in_order_witness:
  "0 < get_symtab_upper_bound file_elf64 \<and>
   malloc_ok example_env (get_symtab_upper_bound file_elf64) \<and>
   canonicalize_symtab file_elf64 = Some example_symtab \<and>
   load_symbols_bfd example_env \<lparr>handle = 1, contents = file_elf64\<rparr> Binary_empty =
     (0, Binary_empty\<lparr>symbols :=
        [\<lparr>Symbol.type = SYM_TYPE_FUN, name = ''main'', addr = 0x401000\<rparr>,
         \<lparr>Symbol.type = SYM_TYPE_FUN, name = ''helper'', addr = 0x401036\<rparr>]\<rparr>)"
proof -
  have b: "0 < get_symtab_upper_bound (contents \<lparr>handle = 1, contents = file_elf64\<rparr>)"
    by (simp add: file_elf64_def)
  have m: "malloc_ok example_env
             (get_symtab_upper_bound (contents \<lparr>handle = 1, contents = file_elf64\<rparr>))"
    by (simp add: example_env_def)
  have c: "canonicalize_symtab (contents \<lparr>handle = 1, contents = file_elf64\<rparr>)
             = Some example_symtab"
    by (simp add: file_elf64_def)
  show ?thesis
    using b m c load_symbols_bfd_functions_in_order [OF b m c, of Binary_empty]
    by (simp add: example_symtab_def BSF_FUNCTION_def bfd_asymbol_value_def Binary_empty_def)
qed

text \<open>
  C10. \<open>load_symbols_bfd\<close> only appends to the symbol sequence of the \<open>Binary\<close>: on every
  path, failing or not, the \<open>Binary\<close> it leaves is the one it was given with some symbols
  added at the back, so \<open>filename\<close>, \<open>entry\<close>, \<open>type\<close>, \<open>type_str\<close>, \<open>arch\<close>, \<open>arch_str\<close>,
  \<open>bits\<close>, \<open>sections\<close> and every symbol already present are unchanged.
\<close>

theorem load_symbols_bfd_only_appends:
  "filename (snd (load_symbols_bfd e bfd_h bin)) = filename bin \<and>
   entry (snd (load_symbols_bfd e bfd_h bin)) = entry bin \<and>
   Binary.type (snd (load_symbols_bfd e bfd_h bin)) = Binary.type bin \<and>
   type_str (snd (load_symbols_bfd e bfd_h bin)) = type_str bin \<and>
   arch (snd (load_symbols_bfd e bfd_h bin)) = arch bin \<and>
   arch_str (snd (load_symbols_bfd e bfd_h bin)) = arch_str bin \<and>
   bits (snd (load_symbols_bfd e bfd_h bin)) = bits bin \<and>
   sections (snd (load_symbols_bfd e bfd_h bin)) = sections bin \<and>
   (\<exists>new. symbols (snd (load_symbols_bfd e bfd_h bin)) = symbols bin @ new)"
proof -
  obtain new where
    "snd (load_symbols_bfd e bfd_h bin) = bin\<lparr>symbols := symbols bin @ new\<rparr>"
    using load_symbols_bfd_frame [of e bfd_h bin] by blast
  then show ?thesis by simp
qed

section \<open>The stages of \<open>load_binary_bfd\<close>\<close>

lemma bfd_mach_distinct: "bfd_mach_i386_i386 \<noteq> bfd_mach_x86_64"
  by (simp add: bfd_mach_i386_i386_def bfd_mach_x86_64_def)

lemma load_dynsym_bfd_snd:
  "snd (load_dynsym_bfd e bfd_h bin) = bin \<or>
   (\<exists>tab. snd (load_dynsym_bfd e bfd_h bin) = filter_functions tab bin)"
  by (simp add: load_dynsym_bfd_def Let_def split: option.split) blast

lemma load_dynsym_bfd_frame:
  "\<exists>new. snd (load_dynsym_bfd e bfd_h bin) = bin\<lparr>symbols := symbols bin @ new\<rparr>"
  using load_dynsym_bfd_snd [of e bfd_h bin]
proof (elim disjE exE)
  assume "snd (load_dynsym_bfd e bfd_h bin) = bin"
  then show ?thesis
    by (intro exI [where x = "[]"]) simp
next
  fix tab
  assume "snd (load_dynsym_bfd e bfd_h bin) = filter_functions tab bin"
  then show ?thesis
    by (simp only: filter_functions_append) (rule exI, rule refl)
qed

lemma load_sections_bfd_frame:
  "\<exists>new. snd (load_sections_bfd bfd_h bin) = bin\<lparr>sections := sections bin @ new\<rparr>"
proof (cases "read_sections (contents bfd_h)")
  case None
  then show ?thesis
    by (intro exI [where x = "[]"]) (simp add: load_sections_bfd_def)
next
  case (Some secs)
  then show ?thesis
    by (intro exI [where x = secs]) (simp add: load_sections_bfd_def)
qed

lemma load_sections_bfd_status:
  "fst (load_sections_bfd bfd_h bin) = (if read_sections (contents bfd_h) = None then - 1 else 0)"
  by (simp add: load_sections_bfd_def split: option.split)

text \<open>The three extractors together: symbols and sections grow, the other fields stay.\<close>

lemma extractors_frame:
  "\<exists>syms secs.
     snd (load_sections_bfd bfd_h (snd (load_dynsym_bfd e bfd_h (snd (load_symbols_bfd e bfd_h bin)))))
       = bin\<lparr>symbols := symbols bin @ syms, sections := sections bin @ secs\<rparr>"
proof -
  obtain s1 where 1: "snd (load_symbols_bfd e bfd_h bin) = bin\<lparr>symbols := symbols bin @ s1\<rparr>"
    using load_symbols_bfd_frame by blast
  obtain s2 where 2: "snd (load_dynsym_bfd e bfd_h (bin\<lparr>symbols := symbols bin @ s1\<rparr>))
      = bin\<lparr>symbols := symbols bin @ s1, symbols := (symbols bin @ s1) @ s2\<rparr>"
    using load_dynsym_bfd_frame [of e bfd_h "bin\<lparr>symbols := symbols bin @ s1\<rparr>"] by auto
  obtain s3 where 3: "snd (load_sections_bfd bfd_h (bin\<lparr>symbols := symbols bin @ s1 @ s2\<rparr>))
      = bin\<lparr>symbols := symbols bin @ s1 @ s2, sections := sections bin @ s3\<rparr>"
    using load_sections_bfd_frame [of bfd_h "bin\<lparr>symbols := symbols bin @ s1 @ s2\<rparr>"] by auto
  show ?thesis
    by (intro exI [where x = "s1 @ s2"] exI [where x = s3]) (simp add: 1 2 3)
qed


text \<open>
  \<open>load_binary_bfd\<close> by the place where it leaves: the probe fails, the \<open>switch\<close> on the
  flavour fails, the \<open>switch\<close> on the machine code fails, or all the stages run.
\<close>

lemma open_bfd_Some:
  assumes "open_bfd e p fname = (Some bfd_h, p1)"
  shows "openr e fname = Some (contents bfd_h)"
    and "check_format_object (contents bfd_h)"
    and "xvec_flavour (contents bfd_h) \<noteq> bfd_target_unknown_flavour"
  using assms
  by (auto simp: open_bfd_def bfd_openr_def Let_def split: option.splits if_splits)

lemma load_binary_bfd_not_opened:
  assumes "fst (open_bfd e p fname) = None"
  shows "load_binary_bfd e p fname bin ty = (- 1, snd (open_bfd e p fname), bin)"
  using assms
  by (cases "open_bfd e p fname") (simp add: load_binary_bfd_def goto_fail_def goto_cleanup_def)

lemma load_binary_bfd_bad_flavour:
  assumes "open_bfd e p fname = (Some bfd_h, p1)"
    and "xvec_flavour (contents bfd_h) \<noteq> bfd_target_elf_flavour"
    and "xvec_flavour (contents bfd_h) \<noteq> bfd_target_coff_flavour"
  shows "load_binary_bfd e p fname bin ty =
     (- 1, bfd_close bfd_h p1,
      bin\<lparr>filename := fname, entry := get_start_address (contents bfd_h),
          type_str := xvec_name (contents bfd_h)\<rparr>)"
  using assms by (simp add: load_binary_bfd_def goto_fail_def goto_cleanup_def)

lemma load_binary_bfd_bad_mach:
  assumes "open_bfd e p fname = (Some bfd_h, p1)"
    and "xvec_flavour (contents bfd_h) = bfd_target_elf_flavour
         \<or> xvec_flavour (contents bfd_h) = bfd_target_coff_flavour"
    and "mach (contents bfd_h) \<noteq> bfd_mach_i386_i386"
    and "mach (contents bfd_h) \<noteq> bfd_mach_x86_64"
  shows "load_binary_bfd e p fname bin ty =
     (- 1, bfd_close bfd_h p1,
      bin\<lparr>filename := fname, entry := get_start_address (contents bfd_h),
          type_str := xvec_name (contents bfd_h),
          Binary.type := (if xvec_flavour (contents bfd_h) = bfd_target_elf_flavour
                          then BIN_TYPE_ELF else BIN_TYPE_PE),
          arch_str := printable_name (contents bfd_h)\<rparr>)"
  using assms by (auto simp: load_binary_bfd_def goto_fail_def goto_cleanup_def)

lemma load_binary_bfd_stages:
  assumes "open_bfd e p fname = (Some bfd_h, p1)"
    and "xvec_flavour (contents bfd_h) = bfd_target_elf_flavour
         \<or> xvec_flavour (contents bfd_h) = bfd_target_coff_flavour"
    and "mach (contents bfd_h) = bfd_mach_i386_i386
         \<or> mach (contents bfd_h) = bfd_mach_x86_64"
  shows "load_binary_bfd e p fname bin ty =
     (if read_sections (contents bfd_h) = None then - 1 else 0,
      bfd_close bfd_h p1,
      snd (load_sections_bfd bfd_h (snd (load_dynsym_bfd e bfd_h (snd (load_symbols_bfd e bfd_h
        (bin\<lparr>filename := fname, entry := get_start_address (contents bfd_h),
             type_str := xvec_name (contents bfd_h),
             Binary.type := (if xvec_flavour (contents bfd_h) = bfd_target_elf_flavour
                             then BIN_TYPE_ELF else BIN_TYPE_PE),
             arch_str := printable_name (contents bfd_h),
             arch := ARCH_X86,
             bits := (if mach (contents bfd_h) = bfd_mach_i386_i386 then 32 else 64)\<rparr>)))))))"
proof -
  let ?b = "bin\<lparr>filename := fname, entry := get_start_address (contents bfd_h),
             type_str := xvec_name (contents bfd_h),
             Binary.type := (if xvec_flavour (contents bfd_h) = bfd_target_elf_flavour
                             then BIN_TYPE_ELF else BIN_TYPE_PE),
             arch_str := printable_name (contents bfd_h),
             arch := ARCH_X86,
             bits := (if mach (contents bfd_h) = bfd_mach_i386_i386 then 32 else 64)\<rparr>"
  let ?b6 = "snd (load_dynsym_bfd e bfd_h (snd (load_symbols_bfd e bfd_h ?b)))"
  have st: "fst (load_sections_bfd bfd_h ?b6)
      = (if read_sections (contents bfd_h) = None then - 1 else 0)"
    by (rule load_sections_bfd_status)
  have "load_binary_bfd e p fname bin ty =
      (if fst (load_sections_bfd bfd_h ?b6) < 0
       then goto_fail (Some bfd_h) p1 (snd (load_sections_bfd bfd_h ?b6))
       else goto_cleanup 0 (Some bfd_h) p1 (snd (load_sections_bfd bfd_h ?b6)))"
    using assms by (auto simp: load_binary_bfd_def Let_def split: prod.split)
  then show ?thesis
    by (simp add: st goto_fail_def goto_cleanup_def)
qed


lemma load_binary_bfd_loaded:
  assumes "open_bfd e p fname = (Some bfd_h, p1)"
    and "xvec_flavour (contents bfd_h) = bfd_target_elf_flavour
         \<or> xvec_flavour (contents bfd_h) = bfd_target_coff_flavour"
    and "mach (contents bfd_h) = bfd_mach_i386_i386
         \<or> mach (contents bfd_h) = bfd_mach_x86_64"
  shows "\<exists>syms secs. load_binary_bfd e p fname bin ty =
     (if read_sections (contents bfd_h) = None then - 1 else 0,
      bfd_close bfd_h p1,
      bin\<lparr>filename := fname, entry := get_start_address (contents bfd_h),
          type_str := xvec_name (contents bfd_h),
          Binary.type := (if xvec_flavour (contents bfd_h) = bfd_target_elf_flavour
                          then BIN_TYPE_ELF else BIN_TYPE_PE),
          arch_str := printable_name (contents bfd_h),
          arch := ARCH_X86,
          bits := (if mach (contents bfd_h) = bfd_mach_i386_i386 then 32 else 64),
          symbols := symbols bin @ syms,
          sections := sections bin @ secs\<rparr>)"
proof -
  let ?b = "bin\<lparr>filename := fname, entry := get_start_address (contents bfd_h),
             type_str := xvec_name (contents bfd_h),
             Binary.type := (if xvec_flavour (contents bfd_h) = bfd_target_elf_flavour
                             then BIN_TYPE_ELF else BIN_TYPE_PE),
             arch_str := printable_name (contents bfd_h),
             arch := ARCH_X86,
             bits := (if mach (contents bfd_h) = bfd_mach_i386_i386 then 32 else 64)\<rparr>"
  obtain syms secs where
    "snd (load_sections_bfd bfd_h (snd (load_dynsym_bfd e bfd_h (snd (load_symbols_bfd e bfd_h ?b)))))
       = ?b\<lparr>symbols := symbols ?b @ syms, sections := sections ?b @ secs\<rparr>"
    using extractors_frame [of bfd_h e ?b] by blast
  then show ?thesis
    by (intro exI [where x = syms] exI [where x = secs])
       (simp add: load_binary_bfd_stages [OF assms])
qed

lemma load_binary_bfd_process:
  "fst (snd (load_binary_bfd e p fname bin ty)) =
     (case fst (open_bfd e p fname) of
        None \<Rightarrow> snd (open_bfd e p fname)
      | Some bfd_h \<Rightarrow> bfd_close bfd_h (snd (open_bfd e p fname)))"
proof (cases "open_bfd e p fname")
  case (Pair r p1)
  show ?thesis
  proof (cases r)
    case None
    with Pair show ?thesis by (simp add: load_binary_bfd_not_opened)
  next
    case (Some bfd_h)
    with Pair have op: "open_bfd e p fname = (Some bfd_h, p1)" by simp
    show ?thesis
    proof (cases "xvec_flavour (contents bfd_h) = bfd_target_elf_flavour
         \<or> xvec_flavour (contents bfd_h) = bfd_target_coff_flavour")
      case False
      then show ?thesis
        using load_binary_bfd_bad_flavour [OF op, of bin ty] by (simp add: op)
    next
      case fl: True
      show ?thesis
      proof (cases "mach (contents bfd_h) = bfd_mach_i386_i386
         \<or> mach (contents bfd_h) = bfd_mach_x86_64")
        case True
        show ?thesis
          by (simp add: load_binary_bfd_stages [OF op fl True] op)
      next
        case False
        then show ?thesis
          using load_binary_bfd_bad_mach [OF op fl, of bin ty] by (simp add: op)
      qed
    qed
  qed
qed

lemma open_bfd_process:
  "\<exists>cs. Call_bfd_init \<notin> set cs \<and>
     bfd_init_flag (snd (open_bfd e p fname)) = (if bfd_init_flag p = 0 then 1 else bfd_init_flag p) \<and>
     calls (snd (open_bfd e p fname)) =
       calls p @ (if bfd_init_flag p = 0 then [Call_bfd_init] else []) @ cs"
proof (cases "openr e fname")
  case None
  then show ?thesis
    by (intro exI [where x = "[]"])
       (simp add: open_bfd_def bfd_openr_def bfd_init_def Let_def)
next
  case (Some f)
  then show ?thesis
    by (intro exI [where x = "[Call_bfd_openr (length (calls p) + (if bfd_init_flag p = 0 then 1 else 0))]"])
       (simp add: open_bfd_def bfd_openr_def bfd_init_def Let_def)
qed

lemma load_binary_process:
  "\<exists>cs. Call_bfd_init \<notin> set cs \<and>
     bfd_init_flag (fst (snd (load_binary e p fname bin ty)))
       = (if bfd_init_flag p = 0 then 1 else bfd_init_flag p) \<and>
     calls (fst (snd (load_binary e p fname bin ty))) =
       calls p @ (if bfd_init_flag p = 0 then [Call_bfd_init] else []) @ cs"
proof -
  obtain cs where cs: "Call_bfd_init \<notin> set cs"
     "bfd_init_flag (snd (open_bfd e p fname)) = (if bfd_init_flag p = 0 then 1 else bfd_init_flag p)"
     "calls (snd (open_bfd e p fname)) =
       calls p @ (if bfd_init_flag p = 0 then [Call_bfd_init] else []) @ cs"
    using open_bfd_process [of e p fname] by blast
  show ?thesis
  proof (cases "fst (open_bfd e p fname)")
    case None
    then show ?thesis
      using cs by (intro exI [where x = cs]) (simp add: load_binary_def load_binary_bfd_process)
  next
    case (Some bfd_h)
    then show ?thesis
      using cs by (intro exI [where x = "cs @ [Call_bfd_close (handle bfd_h)]"])
        (simp add: load_binary_def load_binary_bfd_process bfd_close_def)
  qed
qed

lemma load_all_initialised:
  assumes "bfd_init_flag p \<noteq> 0" and "calls p = Call_bfd_init # rest"
    and "Call_bfd_init \<notin> set rest"
  shows "\<exists>rest'. calls (load_all e p reqs) = Call_bfd_init # rest' \<and> Call_bfd_init \<notin> set rest'"
  using assms
proof (induction reqs arbitrary: p rest)
  case Nil
  then show ?case by simp
next
  case (Cons req reqs)
  obtain fname bin ty where req: "req = (fname, bin, ty)"
    by (cases req) auto
  obtain cs where cs: "Call_bfd_init \<notin> set cs"
     "bfd_init_flag (fst (snd (load_binary e p fname bin ty))) = bfd_init_flag p"
     "calls (fst (snd (load_binary e p fname bin ty))) = Call_bfd_init # rest @ cs"
    using load_binary_process [of e p fname bin ty] Cons.prems by auto
  have "\<exists>rest'. calls (load_all e (fst (snd (load_binary e p fname bin ty))) reqs)
          = Call_bfd_init # rest' \<and> Call_bfd_init \<notin> set rest'"
  proof (rule Cons.IH)
    show "bfd_init_flag (fst (snd (load_binary e p fname bin ty))) \<noteq> 0"
      using cs Cons.prems by simp
    show "calls (fst (snd (load_binary e p fname bin ty))) = Call_bfd_init # rest @ cs"
      by (rule cs)
    show "Call_bfd_init \<notin> set (rest @ cs)"
      using cs Cons.prems by simp
  qed
  then show ?case by (simp add: req)
qed

section \<open>Container and architecture\<close>

text \<open>
  C4. For every handle that \<open>open_bfd\<close> returns, the \<open>switch\<close> on the flavour sets the type of
  the \<open>Binary\<close>: the ELF flavour gives \<open>BIN_TYPE_ELF\<close>, the COFF flavour gives \<open>BIN_TYPE_PE\<close>,
  and with any other flavour the load fails (status \<open>-1\<close>) and the type is left as it was.
\<close>

theorem load_binary_bfd_flavour_to_type:
  assumes "open_bfd e p fname = (Some bfd_h, p1)"
  shows "(xvec_flavour (contents bfd_h) = bfd_target_elf_flavour \<longrightarrow>
            Binary.type (snd (snd (load_binary_bfd e p fname bin ty))) = BIN_TYPE_ELF) \<and>
         (xvec_flavour (contents bfd_h) = bfd_target_coff_flavour \<longrightarrow>
            Binary.type (snd (snd (load_binary_bfd e p fname bin ty))) = BIN_TYPE_PE) \<and>
         (xvec_flavour (contents bfd_h) \<noteq> bfd_target_elf_flavour \<and>
          xvec_flavour (contents bfd_h) \<noteq> bfd_target_coff_flavour \<longrightarrow>
            fst (load_binary_bfd e p fname bin ty) = - 1 \<and>
            Binary.type (snd (snd (load_binary_bfd e p fname bin ty))) = Binary.type bin)"
proof (cases "xvec_flavour (contents bfd_h) = bfd_target_elf_flavour
         \<or> xvec_flavour (contents bfd_h) = bfd_target_coff_flavour")
  case False
  then show ?thesis
    using load_binary_bfd_bad_flavour [OF assms, of bin ty] by simp
next
  case fl: True
  show ?thesis
  proof (cases "mach (contents bfd_h) = bfd_mach_i386_i386
         \<or> mach (contents bfd_h) = bfd_mach_x86_64")
    case True
    obtain syms secs where
      "Binary.type (snd (snd (load_binary_bfd e p fname bin ty)))
         = (if xvec_flavour (contents bfd_h) = bfd_target_elf_flavour
            then BIN_TYPE_ELF else BIN_TYPE_PE)"
      using load_binary_bfd_loaded [OF assms fl True, of bin ty] by auto
    then show ?thesis
      using fl by auto
  next
    case False
    then show ?thesis
      using fl load_binary_bfd_bad_mach [OF assms fl, of bin ty] by auto
  qed
qed

theorem load_binary_bfd_flavour_to_type_witness:
  "open_bfd example_env process_start ''a.out''
     = (Some \<lparr>handle = 1, contents = file_elf64\<rparr>,
        \<lparr>bfd_init_flag = 1, calls = [Call_bfd_init, Call_bfd_openr 1]\<rparr>) \<and>
   xvec_flavour file_elf64 = bfd_target_elf_flavour \<and>
   Binary.type (snd (snd (load_binary_bfd example_env process_start ''a.out''
       Binary_empty BIN_TYPE_UNSET))) = BIN_TYPE_ELF \<and>
   open_bfd example_env process_start ''prog.exe''
     = (Some \<lparr>handle = 1, contents = file_pe32\<rparr>,
        \<lparr>bfd_init_flag = 1, calls = [Call_bfd_init, Call_bfd_openr 1]\<rparr>) \<and>
   xvec_flavour file_pe32 = bfd_target_coff_flavour \<and>
   Binary.type (snd (snd (load_binary_bfd example_env process_start ''prog.exe''
       Binary_empty BIN_TYPE_UNSET))) = BIN_TYPE_PE \<and>
   open_bfd example_env process_start ''prog.macho''
     = (Some \<lparr>handle = 1, contents = file_mach_o\<rparr>,
        \<lparr>bfd_init_flag = 1, calls = [Call_bfd_init, Call_bfd_openr 1]\<rparr>) \<and>
   xvec_flavour file_mach_o = bfd_target_mach_o_flavour \<and>
   fst (load_binary_bfd example_env process_start ''prog.macho''
       Binary_empty BIN_TYPE_UNSET) = - 1 \<and>
   Binary.type (snd (snd (load_binary_bfd example_env process_start ''prog.macho''
       Binary_empty BIN_TYPE_UNSET))) = BIN_TYPE_UNSET"
proof -
  have o1: "open_bfd example_env process_start ''a.out''
     = (Some \<lparr>handle = 1, contents = file_elf64\<rparr>,
        \<lparr>bfd_init_flag = 1, calls = [Call_bfd_init, Call_bfd_openr 1]\<rparr>)"
    by (simp add: open_bfd_def bfd_openr_def bfd_init_def process_start_def example_env_def
          file_elf64_def)
  have o2: "open_bfd example_env process_start ''prog.exe''
     = (Some \<lparr>handle = 1, contents = file_pe32\<rparr>,
        \<lparr>bfd_init_flag = 1, calls = [Call_bfd_init, Call_bfd_openr 1]\<rparr>)"
    by (simp add: open_bfd_def bfd_openr_def bfd_init_def process_start_def example_env_def
          file_pe32_def file_elf64_def)
  have o3: "open_bfd example_env process_start ''prog.macho''
     = (Some \<lparr>handle = 1, contents = file_mach_o\<rparr>,
        \<lparr>bfd_init_flag = 1, calls = [Call_bfd_init, Call_bfd_openr 1]\<rparr>)"
    by (simp add: open_bfd_def bfd_openr_def bfd_init_def process_start_def example_env_def
          file_mach_o_def file_elf64_def)
  show ?thesis
    using o1 o2 o3
      load_binary_bfd_flavour_to_type [OF o1, of Binary_empty BIN_TYPE_UNSET]
      load_binary_bfd_flavour_to_type [OF o2, of Binary_empty BIN_TYPE_UNSET]
      load_binary_bfd_flavour_to_type [OF o3, of Binary_empty BIN_TYPE_UNSET]
    by (simp add: file_elf64_def file_pe32_def file_mach_o_def Binary_empty_def)
qed

text \<open>
  C3, as stated: for every handle that \<open>open_bfd\<close> returns, an x86-64 machine code yields
  architecture \<open>ARCH_X86\<close> and 64 bits. This does not hold for every opened handle. The
  \<open>switch\<close> on the machine code (line 178) comes after the \<open>switch\<close> on the flavour (line
  161): \<open>prog.macho\<close> is opened by \<open>open_bfd\<close>, its machine code is \<open>bfd_mach_x86_64\<close>, and
  the load leaves at the flavour with \<open>-1\<close>, before the machine code is read, so that \<open>arch\<close>
  and \<open>bits\<close> are never set.
\<close>

theorem load_binary_bfd_mach_o_x86_64_no_arch:
  "open_bfd example_env process_start ''prog.macho''
     = (Some \<lparr>handle = 1, contents = file_mach_o\<rparr>,
        \<lparr>bfd_init_flag = 1, calls = [Call_bfd_init, Call_bfd_openr 1]\<rparr>) \<and>
   mach file_mach_o = bfd_mach_x86_64 \<and>
   fst (load_binary_bfd example_env process_start ''prog.macho''
       Binary_empty BIN_TYPE_UNSET) = - 1 \<and>
   arch (snd (snd (load_binary_bfd example_env process_start ''prog.macho''
       Binary_empty BIN_TYPE_UNSET))) = ARCH_UNSET \<and>
   bits (snd (snd (load_binary_bfd example_env process_start ''prog.macho''
       Binary_empty BIN_TYPE_UNSET))) = 0"
  by (simp add: load_binary_bfd_def open_bfd_def bfd_openr_def bfd_init_def bfd_close_def
        goto_fail_def goto_cleanup_def process_start_def example_env_def
        file_mach_o_def file_elf64_def Binary_empty_def bfd_mach_x86_64_def)

text \<open>
  C3, amended. For every handle that \<open>open_bfd\<close> returns and whose flavour is ELF or COFF,
  the \<open>switch\<close> on the machine code sets architecture and width: the code
  \<open>bfd_mach_i386_i386\<close> gives \<open>ARCH_X86\<close> and 32 bits, the code \<open>bfd_mach_x86_64\<close> gives
  \<open>ARCH_X86\<close> and 64 bits. For every handle that \<open>open_bfd\<close> returns, any other machine
  code makes the whole load fail (status \<open>-1\<close>) and no architecture is put in its place:
  \<open>arch\<close> and \<open>bits\<close> are left as they were. A handle of any other flavour makes the load
  fail at the flavour, whatever its machine code, with \<open>arch\<close> and \<open>bits\<close> left as they were.
\<close>

theorem load_binary_bfd_mach_to_arch:
  assumes "open_bfd e p fname = (Some bfd_h, p1)"
  shows "((xvec_flavour (contents bfd_h) = bfd_target_elf_flavour
            \<or> xvec_flavour (contents bfd_h) = bfd_target_coff_flavour)
          \<and> mach (contents bfd_h) = bfd_mach_i386_i386 \<longrightarrow>
            arch (snd (snd (load_binary_bfd e p fname bin ty))) = ARCH_X86 \<and>
            bits (snd (snd (load_binary_bfd e p fname bin ty))) = 32) \<and>
         ((xvec_flavour (contents bfd_h) = bfd_target_elf_flavour
            \<or> xvec_flavour (contents bfd_h) = bfd_target_coff_flavour)
          \<and> mach (contents bfd_h) = bfd_mach_x86_64 \<longrightarrow>
            arch (snd (snd (load_binary_bfd e p fname bin ty))) = ARCH_X86 \<and>
            bits (snd (snd (load_binary_bfd e p fname bin ty))) = 64) \<and>
         (mach (contents bfd_h) \<noteq> bfd_mach_i386_i386 \<and>
          mach (contents bfd_h) \<noteq> bfd_mach_x86_64 \<longrightarrow>
            fst (load_binary_bfd e p fname bin ty) = - 1 \<and>
            arch (snd (snd (load_binary_bfd e p fname bin ty))) = arch bin \<and>
            bits (snd (snd (load_binary_bfd e p fname bin ty))) = bits bin) \<and>
         (xvec_flavour (contents bfd_h) \<noteq> bfd_target_elf_flavour \<and>
          xvec_flavour (contents bfd_h) \<noteq> bfd_target_coff_flavour \<longrightarrow>
            fst (load_binary_bfd e p fname bin ty) = - 1 \<and>
            arch (snd (snd (load_binary_bfd e p fname bin ty))) = arch bin \<and>
            bits (snd (snd (load_binary_bfd e p fname bin ty))) = bits bin)"
proof (cases "xvec_flavour (contents bfd_h) = bfd_target_elf_flavour
         \<or> xvec_flavour (contents bfd_h) = bfd_target_coff_flavour")
  case False
  then show ?thesis
    using load_binary_bfd_bad_flavour [OF assms, of bin ty] by simp
next
  case fl: True
  show ?thesis
  proof (cases "mach (contents bfd_h) = bfd_mach_i386_i386
         \<or> mach (contents bfd_h) = bfd_mach_x86_64")
    case True
    obtain syms secs where
      "arch (snd (snd (load_binary_bfd e p fname bin ty))) = ARCH_X86"
      "bits (snd (snd (load_binary_bfd e p fname bin ty)))
         = (if mach (contents bfd_h) = bfd_mach_i386_i386 then 32 else 64)"
      using load_binary_bfd_loaded [OF assms fl True, of bin ty] by auto
    then show ?thesis
      using True fl bfd_mach_distinct by auto
  next
    case False
    then show ?thesis
      using fl load_binary_bfd_bad_mach [OF assms fl, of bin ty] by auto
  qed
qed

theorem load_binary_bfd_mach_to_arch_witness:
  "open_bfd example_env process_start ''prog.exe''
     = (Some \<lparr>handle = 1, contents = file_pe32\<rparr>,
        \<lparr>bfd_init_flag = 1, calls = [Call_bfd_init, Call_bfd_openr 1]\<rparr>) \<and>
   xvec_flavour file_pe32 = bfd_target_coff_flavour \<and>
   mach file_pe32 = 4 \<and>
   bfd_mach_i386_i386 = 4 \<and>
   arch (snd (snd (load_binary_bfd example_env process_start ''prog.exe''
       Binary_empty BIN_TYPE_UNSET))) = ARCH_X86 \<and>
   bits (snd (snd (load_binary_bfd example_env process_start ''prog.exe''
       Binary_empty BIN_TYPE_UNSET))) = 32 \<and>
   open_bfd example_env process_start ''a.out''
     = (Some \<lparr>handle = 1, contents = file_elf64\<rparr>,
        \<lparr>bfd_init_flag = 1, calls = [Call_bfd_init, Call_bfd_openr 1]\<rparr>) \<and>
   xvec_flavour file_elf64 = bfd_target_elf_flavour \<and>
   mach file_elf64 = 8 \<and>
   bfd_mach_x86_64 = 8 \<and>
   arch (snd (snd (load_binary_bfd example_env process_start ''a.out''
       Binary_empty BIN_TYPE_UNSET))) = ARCH_X86 \<and>
   bits (snd (snd (load_binary_bfd example_env process_start ''a.out''
       Binary_empty BIN_TYPE_UNSET))) = 64 \<and>
   open_bfd example_env process_start ''arm.elf''
     = (Some \<lparr>handle = 1, contents = file_arm_elf\<rparr>,
        \<lparr>bfd_init_flag = 1, calls = [Call_bfd_init, Call_bfd_openr 1]\<rparr>) \<and>
   mach file_arm_elf = 0 \<and>
   fst (load_binary_bfd example_env process_start ''arm.elf''
       Binary_empty BIN_TYPE_UNSET) = - 1 \<and>
   arch (snd (snd (load_binary_bfd example_env process_start ''arm.elf''
       Binary_empty BIN_TYPE_UNSET))) = ARCH_UNSET \<and>
   bits (snd (snd (load_binary_bfd example_env process_start ''arm.elf''
       Binary_empty BIN_TYPE_UNSET))) = 0 \<and>
   open_bfd example_env process_start ''prog.macho''
     = (Some \<lparr>handle = 1, contents = file_mach_o\<rparr>,
        \<lparr>bfd_init_flag = 1, calls = [Call_bfd_init, Call_bfd_openr 1]\<rparr>) \<and>
   xvec_flavour file_mach_o = bfd_target_mach_o_flavour \<and>
   fst (load_binary_bfd example_env process_start ''prog.macho''
       Binary_empty BIN_TYPE_UNSET) = - 1 \<and>
   arch (snd (snd (load_binary_bfd example_env process_start ''prog.macho''
       Binary_empty BIN_TYPE_UNSET))) = ARCH_UNSET \<and>
   bits (snd (snd (load_binary_bfd example_env process_start ''prog.macho''
       Binary_empty BIN_TYPE_UNSET))) = 0"
proof -
  have o1: "open_bfd example_env process_start ''prog.exe''
     = (Some \<lparr>handle = 1, contents = file_pe32\<rparr>,
        \<lparr>bfd_init_flag = 1, calls = [Call_bfd_init, Call_bfd_openr 1]\<rparr>)"
    by (simp add: open_bfd_def bfd_openr_def bfd_init_def process_start_def example_env_def
          file_pe32_def file_elf64_def)
  have o2: "open_bfd example_env process_start ''a.out''
     = (Some \<lparr>handle = 1, contents = file_elf64\<rparr>,
        \<lparr>bfd_init_flag = 1, calls = [Call_bfd_init, Call_bfd_openr 1]\<rparr>)"
    by (simp add: open_bfd_def bfd_openr_def bfd_init_def process_start_def example_env_def
          file_elf64_def)
  have o3: "open_bfd example_env process_start ''arm.elf''
     = (Some \<lparr>handle = 1, contents = file_arm_elf\<rparr>,
        \<lparr>bfd_init_flag = 1, calls = [Call_bfd_init, Call_bfd_openr 1]\<rparr>)"
    by (simp add: open_bfd_def bfd_openr_def bfd_init_def process_start_def example_env_def
          file_arm_elf_def file_elf64_def)
  have o4: "open_bfd example_env process_start ''prog.macho''
     = (Some \<lparr>handle = 1, contents = file_mach_o\<rparr>,
        \<lparr>bfd_init_flag = 1, calls = [Call_bfd_init, Call_bfd_openr 1]\<rparr>)"
    by (simp add: open_bfd_def bfd_openr_def bfd_init_def process_start_def example_env_def
          file_mach_o_def file_elf64_def)
  show ?thesis
    using o1 o2 o3 o4
      load_binary_bfd_mach_to_arch [OF o1, of Binary_empty BIN_TYPE_UNSET]
      load_binary_bfd_mach_to_arch [OF o2, of Binary_empty BIN_TYPE_UNSET]
      load_binary_bfd_mach_to_arch [OF o3, of Binary_empty BIN_TYPE_UNSET]
      load_binary_bfd_mach_to_arch [OF o4, of Binary_empty BIN_TYPE_UNSET]
    by (simp add: file_elf64_def file_pe32_def file_arm_elf_def file_mach_o_def Binary_empty_def
          bfd_mach_i386_i386_def bfd_mach_x86_64_def)
qed

section \<open>Optional symbols, required sections\<close>




section \<open>What a load returns\<close>

text \<open>
  C2, as stated: when the load fails, the caller's \<open>Binary\<close> is not partially populated.
  This does not hold. \<open>load_binary_bfd\<close> writes into the caller's \<open>Binary\<close> stage by stage
  and nothing undoes the writes when a later stage fails: for an ELF file of an unsupported
  machine the load returns \<open>-1\<close> and the \<open>Binary\<close> has its file name, entry point, type
  and the two names set, while \<open>arch\<close> and \<open>bits\<close> are still unset.
\<close>

theorem load_binary_failure_leaves_partial_Binary:
  "load_binary example_env process_start ''arm.elf'' Binary_empty BIN_TYPE_UNSET =
     (- 1,
      \<lparr>bfd_init_flag = 1, calls = [Call_bfd_init, Call_bfd_openr 1, Call_bfd_close 1]\<rparr>,
      \<lparr>filename = ''arm.elf'', Binary.type = BIN_TYPE_ELF, type_str = ''elf32-littlearm'',
       arch = ARCH_UNSET, arch_str = ''armv7'', bits = 0, entry = 0x401020,
       sections = [], symbols = []\<rparr>)"
  by (simp add: load_binary_def load_binary_bfd_def open_bfd_def bfd_openr_def bfd_init_def
        bfd_close_def goto_fail_def goto_cleanup_def process_start_def example_env_def
        file_arm_elf_def file_elf64_def Binary_empty_def
        bfd_mach_i386_i386_def bfd_mach_x86_64_def)

text \<open>
  C2, amended. A load that returns success has populated the \<open>Binary\<close>: the file name and
  the entry point of the opened file, a type (\<open>BIN_TYPE_ELF\<close> or \<open>BIN_TYPE_PE\<close>), the
  architecture \<open>ARCH_X86\<close> and a width of 32 or 64 bits. A load that fails inside \<open>open_bfd\<close>
  returns \<open>-1\<close> and leaves the caller's \<open>Binary\<close> as it was. The \<open>Binary\<close> is populated in
  place and never rolled back: once \<open>open_bfd\<close> has returned a handle, the file name, the
  entry point and the name of the target are in the \<open>Binary\<close> whatever the status of the load.
\<close>

theorem load_binary_success_is_populated:
  "(fst (load_binary e p fname bin ty) = 0 \<longrightarrow>
      (\<exists>f. openr e fname = Some f \<and>
           entry (snd (snd (load_binary e p fname bin ty))) = get_start_address f) \<and>
      filename (snd (snd (load_binary e p fname bin ty))) = fname \<and>
      (Binary.type (snd (snd (load_binary e p fname bin ty))) = BIN_TYPE_ELF
       \<or> Binary.type (snd (snd (load_binary e p fname bin ty))) = BIN_TYPE_PE) \<and>
      arch (snd (snd (load_binary e p fname bin ty))) = ARCH_X86 \<and>
      (bits (snd (snd (load_binary e p fname bin ty))) = 32
       \<or> bits (snd (snd (load_binary e p fname bin ty))) = 64)) \<and>
   (fst (open_bfd e p fname) = None \<longrightarrow>
      fst (load_binary e p fname bin ty) = - 1 \<and>
      snd (snd (load_binary e p fname bin ty)) = bin) \<and>
   (fst (open_bfd e p fname) = Some bfd_h \<longrightarrow>
      filename (snd (snd (load_binary e p fname bin ty))) = fname \<and>
      entry (snd (snd (load_binary e p fname bin ty))) = get_start_address (contents bfd_h) \<and>
      type_str (snd (snd (load_binary e p fname bin ty))) = xvec_name (contents bfd_h))"
proof (cases "open_bfd e p fname")
  case (Pair r p1)
  show ?thesis
  proof (cases r)
    case None
    with Pair show ?thesis
      by (simp add: load_binary_def load_binary_bfd_not_opened)
  next
    case (Some h)
    with Pair have op: "open_bfd e p fname = (Some h, p1)" by simp
    note o = open_bfd_Some [OF op]
    show ?thesis
    proof (cases "xvec_flavour (contents h) = bfd_target_elf_flavour
         \<or> xvec_flavour (contents h) = bfd_target_coff_flavour")
      case False
      then show ?thesis
        using load_binary_bfd_bad_flavour [OF op, of bin ty] by (simp add: load_binary_def op)
    next
      case fl: True
      show ?thesis
      proof (cases "mach (contents h) = bfd_mach_i386_i386
         \<or> mach (contents h) = bfd_mach_x86_64")
        case True
        obtain syms secs where
          "load_binary e p fname bin ty =
             (if read_sections (contents h) = None then - 1 else 0,
              bfd_close h p1,
              bin\<lparr>filename := fname, entry := get_start_address (contents h),
                  type_str := xvec_name (contents h),
                  Binary.type := (if xvec_flavour (contents h) = bfd_target_elf_flavour
                                  then BIN_TYPE_ELF else BIN_TYPE_PE),
                  arch_str := printable_name (contents h),
                  arch := ARCH_X86,
                  bits := (if mach (contents h) = bfd_mach_i386_i386 then 32 else 64),
                  symbols := symbols bin @ syms,
                  sections := sections bin @ secs\<rparr>)"
          using load_binary_bfd_loaded [OF op fl True, of bin ty]
          unfolding load_binary_def by blast
        then show ?thesis
          using o by (auto simp: op)
      next
        case False
        then show ?thesis
          using fl load_binary_bfd_bad_mach [OF op fl, of bin ty]
          by (auto simp: load_binary_def op)
      qed
    qed
  qed
qed

theorem load_binary_success_is_populated_witness:
  "fst (load_binary example_env process_start ''a.out'' Binary_empty BIN_TYPE_UNSET) = 0 \<and>
   entry (snd (snd (load_binary example_env process_start ''a.out'' Binary_empty BIN_TYPE_UNSET)))
     = 0x401020 \<and>
   filename (snd (snd (load_binary example_env process_start ''a.out'' Binary_empty BIN_TYPE_UNSET)))
     = ''a.out'' \<and>
   Binary.type (snd (snd (load_binary example_env process_start ''a.out'' Binary_empty BIN_TYPE_UNSET)))
     = BIN_TYPE_ELF \<and>
   arch (snd (snd (load_binary example_env process_start ''a.out'' Binary_empty BIN_TYPE_UNSET)))
     = ARCH_X86 \<and>
   bits (snd (snd (load_binary example_env process_start ''a.out'' Binary_empty BIN_TYPE_UNSET)))
     = 64 \<and>
   fst (open_bfd example_env process_start ''nothing'') = None \<and>
   fst (load_binary example_env process_start ''nothing'' Binary_empty BIN_TYPE_UNSET) = - 1 \<and>
   snd (snd (load_binary example_env process_start ''nothing'' Binary_empty BIN_TYPE_UNSET))
     = Binary_empty \<and>
   fst (open_bfd example_env process_start ''arm.elf'')
     = Some \<lparr>handle = 1, contents = file_arm_elf\<rparr> \<and>
   filename (snd (snd (load_binary example_env process_start ''arm.elf'' Binary_empty BIN_TYPE_UNSET)))
     = ''arm.elf'' \<and>
   entry (snd (snd (load_binary example_env process_start ''arm.elf'' Binary_empty BIN_TYPE_UNSET)))
     = 0x401020 \<and>
   type_str (snd (snd (load_binary example_env process_start ''arm.elf'' Binary_empty BIN_TYPE_UNSET)))
     = ''elf32-littlearm''"
proof -
  have ok: "fst (load_binary example_env process_start ''a.out'' Binary_empty BIN_TYPE_UNSET) = 0"
    by (simp add: load_binary_def load_binary_bfd_def open_bfd_def bfd_openr_def bfd_init_def
        goto_fail_def goto_cleanup_def load_sections_bfd_def process_start_def example_env_def
        file_elf64_def bfd_mach_i386_i386_def bfd_mach_x86_64_def Let_def split: prod.split)
  have ty: "Binary.type (snd (snd (load_binary example_env process_start ''a.out''
              Binary_empty BIN_TYPE_UNSET))) = BIN_TYPE_ELF"
    by (simp add: load_binary_def load_binary_bfd_def open_bfd_def bfd_openr_def bfd_init_def
        goto_fail_def goto_cleanup_def load_sections_bfd_def load_dynsym_bfd_def
        load_symbols_bfd_def filter_functions_append process_start_def example_env_def
        file_elf64_def bfd_mach_i386_i386_def bfd_mach_x86_64_def split: prod.split)
  have bi: "bits (snd (snd (load_binary example_env process_start ''a.out''
              Binary_empty BIN_TYPE_UNSET))) = 64"
    by (simp add: load_binary_def load_binary_bfd_def open_bfd_def bfd_openr_def bfd_init_def
        goto_fail_def goto_cleanup_def load_sections_bfd_def load_dynsym_bfd_def
        load_symbols_bfd_def filter_functions_append process_start_def example_env_def
        file_elf64_def bfd_mach_i386_i386_def bfd_mach_x86_64_def split: prod.split)
  have no: "fst (open_bfd example_env process_start ''nothing'') = None"
    by (simp add: open_bfd_def bfd_openr_def example_env_def)
  have op: "fst (open_bfd example_env process_start ''arm.elf'')
     = Some \<lparr>handle = 1, contents = file_arm_elf\<rparr>"
    by (simp add: open_bfd_def bfd_openr_def bfd_init_def process_start_def example_env_def
          file_arm_elf_def file_elf64_def)
  show ?thesis
    using ok ty bi no op
      load_binary_success_is_populated
        [of example_env process_start "''a.out''" Binary_empty BIN_TYPE_UNSET]
      load_binary_success_is_populated
        [of example_env process_start "''nothing''" Binary_empty BIN_TYPE_UNSET]
      load_binary_success_is_populated
        [of example_env process_start "''arm.elf''" Binary_empty BIN_TYPE_UNSET
            "\<lparr>handle = 1, contents = file_arm_elf\<rparr>"]
    by (simp add: example_env_def file_elf64_def file_arm_elf_def)
qed

text \<open>
  C8, as stated: the error that \<open>load_binary\<close> returns tells the kinds of failure apart.
  This does not hold. A path that cannot be opened, a file that is not an object, an
  unsupported machine and a failure to read the sections are four different failures, and
  the caller gets the same status \<open>-1\<close> for each.
\<close>

theorem load_binary_failures_not_told_apart:
  "openr example_env ''nothing'' = None \<and>
   fst (load_binary example_env process_start ''nothing'' Binary_empty BIN_TYPE_UNSET) = - 1 \<and>
   openr example_env ''notes.txt'' = Some file_text \<and>
   \<not> check_format_object file_text \<and>
   fst (load_binary example_env process_start ''notes.txt'' Binary_empty BIN_TYPE_UNSET) = - 1 \<and>
   openr example_env ''arm.elf'' = Some file_arm_elf \<and>
   mach file_arm_elf \<noteq> bfd_mach_i386_i386 \<and>
   mach file_arm_elf \<noteq> bfd_mach_x86_64 \<and>
   fst (load_binary example_env process_start ''arm.elf'' Binary_empty BIN_TYPE_UNSET) = - 1 \<and>
   openr example_env ''badsecs'' = Some file_bad_sections \<and>
   read_sections file_bad_sections = None \<and>
   fst (load_binary example_env process_start ''badsecs'' Binary_empty BIN_TYPE_UNSET) = - 1"
  by (simp add: load_binary_def load_binary_bfd_def open_bfd_def bfd_openr_def bfd_init_def
        goto_fail_def goto_cleanup_def load_sections_bfd_def process_start_def example_env_def
        file_text_def file_arm_elf_def file_bad_sections_def file_elf64_def
        bfd_mach_i386_i386_def bfd_mach_x86_64_def split: prod.split)

text \<open>
  C8, amended. The status that \<open>load_binary\<close> returns is \<open>0\<close> or \<open>-1\<close> and nothing else:
  \<open>0\<close> exactly when the file opens, is an object, has the ELF or COFF flavour and the
  machine code \<open>bfd_mach_i386_i386\<close> (4) or \<open>bfd_mach_x86_64\<close> (8), and its sections can be
  read; \<open>-1\<close> for every failure, whatever its cause.
\<close>

theorem load_binary_status_only:
  "fst (load_binary e p fname bin ty) =
     (case openr e fname of
        None \<Rightarrow> - 1
      | Some f \<Rightarrow>
          if check_format_object f
             \<and> (xvec_flavour f = bfd_target_elf_flavour \<or> xvec_flavour f = bfd_target_coff_flavour)
             \<and> (mach f = bfd_mach_i386_i386 \<or> mach f = bfd_mach_x86_64)
             \<and> read_sections f \<noteq> None
          then 0 else - 1)"
proof (cases "open_bfd e p fname")
  case (Pair r p1)
  show ?thesis
  proof (cases r)
    case None
    with Pair have "fst (load_binary e p fname bin ty) = - 1"
      by (simp add: load_binary_def load_binary_bfd_not_opened)
    moreover from None Pair
    have "openr e fname = None \<or> (\<exists>f. openr e fname = Some f \<and>
            (\<not> check_format_object f \<or> xvec_flavour f = bfd_target_unknown_flavour))"
      by (auto simp: open_bfd_def bfd_openr_def Let_def split: option.splits if_splits)
    ultimately show ?thesis by auto
  next
    case (Some bfd_h)
    with Pair have op: "open_bfd e p fname = (Some bfd_h, p1)" by simp
    note o = open_bfd_Some [OF op]
    show ?thesis
    proof (cases "xvec_flavour (contents bfd_h) = bfd_target_elf_flavour
         \<or> xvec_flavour (contents bfd_h) = bfd_target_coff_flavour")
      case False
      then show ?thesis
        using o load_binary_bfd_bad_flavour [OF op, of bin ty] by (simp add: load_binary_def)
    next
      case fl: True
      show ?thesis
      proof (cases "mach (contents bfd_h) = bfd_mach_i386_i386
         \<or> mach (contents bfd_h) = bfd_mach_x86_64")
        case True
        show ?thesis
          using o fl True
          by (simp add: load_binary_def load_binary_bfd_stages [OF op fl True])
      next
        case False
        then show ?thesis
          using o fl load_binary_bfd_bad_mach [OF op fl, of bin ty] by (simp add: load_binary_def)
      qed
    qed
  qed
qed



text \<open>
  The statuses at the example files: \<open>0\<close> for the 32-bit PE file, whose machine code is
  \<open>4\<close>, and for the 64-bit ELF file, whose machine code is \<open>8\<close>; \<open>-1\<close> for an ELF file
  with the machine code \<open>2\<close>, which the \<open>switch\<close> at line 178 does not name, and for the
  four failures of different kinds.
\<close>

theorem load_binary_status_only_witness:
  "fst (load_binary example_env process_start ''prog.exe'' Binary_empty BIN_TYPE_UNSET) = 0 \<and>
   fst (load_binary example_env process_start ''a.out'' Binary_empty BIN_TYPE_UNSET) = 0 \<and>
   fst (load_binary (example_env\<lparr>openr := (\<lambda>fname. Some (file_elf64\<lparr>mach := 2\<rparr>))\<rparr>)
          process_start ''old.com'' Binary_empty BIN_TYPE_UNSET) = - 1 \<and>
   fst (load_binary example_env process_start ''nothing'' Binary_empty BIN_TYPE_UNSET) = - 1 \<and>
   fst (load_binary example_env process_start ''notes.txt'' Binary_empty BIN_TYPE_UNSET) = - 1 \<and>
   fst (load_binary example_env process_start ''arm.elf'' Binary_empty BIN_TYPE_UNSET) = - 1 \<and>
   fst (load_binary example_env process_start ''badsecs'' Binary_empty BIN_TYPE_UNSET) = - 1"
  using
    load_binary_status_only [of example_env process_start "''prog.exe''" Binary_empty BIN_TYPE_UNSET]
    load_binary_status_only [of example_env process_start "''a.out''" Binary_empty BIN_TYPE_UNSET]
    load_binary_status_only
      [of "example_env\<lparr>openr := (\<lambda>fname. Some (file_elf64\<lparr>mach := 2\<rparr>))\<rparr>"
          process_start "''old.com''" Binary_empty BIN_TYPE_UNSET]
    load_binary_status_only [of example_env process_start "''nothing''" Binary_empty BIN_TYPE_UNSET]
    load_binary_status_only [of example_env process_start "''notes.txt''" Binary_empty BIN_TYPE_UNSET]
    load_binary_status_only [of example_env process_start "''arm.elf''" Binary_empty BIN_TYPE_UNSET]
    load_binary_status_only [of example_env process_start "''badsecs''" Binary_empty BIN_TYPE_UNSET]
  by (simp add: example_env_def file_elf64_def file_pe32_def file_text_def file_arm_elf_def
        file_bad_sections_def example_sections_def bfd_mach_i386_i386_def bfd_mach_x86_64_def)

section \<open>The handle\<close>

text \<open>
  After a probe that succeeded, \<open>load_binary_bfd\<close> closes the handle on every path, and that
  is the only call it adds; after a probe that failed it adds none.
\<close>

lemma load_binary_bfd_closes_opened_handle:
  assumes "open_bfd e p fname = (Some bfd_h, p1)"
  shows "calls (fst (snd (load_binary_bfd e p fname bin ty)))
           = calls p1 @ [Call_bfd_close (handle bfd_h)]"
  using assms by (simp add: load_binary_bfd_process bfd_close_def)

text \<open>
  When \<open>bfd_openr\<close> has returned a handle and \<open>open_bfd\<close> then rejects the file, the last
  library call of the whole load is that \<open>bfd_openr\<close>: no \<open>bfd_close\<close> follows it.
\<close>

lemma load_binary_rejected_handle_not_closed:
  assumes "openr e fname = Some f"
    and "\<not> check_format_object f \<or> xvec_flavour f = bfd_target_unknown_flavour"
  shows "fst (load_binary e p fname bin ty) = - 1"
    and "\<exists>h. last (calls (fst (snd (load_binary e p fname bin ty)))) = Call_bfd_openr h"
proof -
  have r: "fst (open_bfd e p fname) = None"
    using assms by (auto simp: open_bfd_def bfd_openr_def Let_def)
  have c: "\<exists>h. last (calls (snd (open_bfd e p fname))) = Call_bfd_openr h"
    using assms by (auto simp: open_bfd_def bfd_openr_def Let_def)
  show "fst (load_binary e p fname bin ty) = - 1"
    using r by (simp add: load_binary_def load_binary_bfd_not_opened)
  show "\<exists>h. last (calls (fst (snd (load_binary e p fname bin ty)))) = Call_bfd_openr h"
    using r c by (simp add: load_binary_def load_binary_bfd_not_opened)
qed

text \<open>
  C1. The handle that \<open>open_bfd\<close> acquires is released exactly once on every exit path,
  the failed format check and the unknown flavour inside \<open>open_bfd\<close> included.
  The code does not do this: \<open>notes.txt\<close> opens and is not an object file, \<open>open_bfd\<close>
  returns a null pointer at line 34 without closing the handle it holds, and
  \<open>load_binary_bfd\<close>, with a null pointer, closes nothing. The load ends with the handle
  \<open>1\<close> opened and never closed.
\<close>

theorem load_binary_text_file_handle_never_closed:
  "load_binary example_env process_start ''notes.txt'' Binary_empty BIN_TYPE_UNSET =
     (- 1, \<lparr>bfd_init_flag = 1, calls = [Call_bfd_init, Call_bfd_openr 1]\<rparr>, Binary_empty) \<and>
   count_list (calls (fst (snd (load_binary example_env process_start ''notes.txt''
       Binary_empty BIN_TYPE_UNSET)))) (Call_bfd_openr 1) = 1 \<and>
   count_list (calls (fst (snd (load_binary example_env process_start ''notes.txt''
       Binary_empty BIN_TYPE_UNSET)))) (Call_bfd_close 1) = 0"
  by (simp add: load_binary_def load_binary_bfd_def open_bfd_def bfd_openr_def bfd_init_def
        goto_fail_def goto_cleanup_def process_start_def example_env_def
        file_text_def file_elf64_def)

section \<open>Initialisation of the library\<close>

text \<open>
  C9. Over any number of loads in one process, \<open>bfd_init\<close> is called at most once: a
  process that has loaded at least one file has called it exactly once, as the first
  library call of all, so before the first \<open>bfd_openr\<close>; no later load calls it again.
\<close>

theorem bfd_init_at_most_once:
  "\<exists>rest. calls (load_all e process_start reqs)
            = (if reqs = [] then [] else Call_bfd_init # rest) \<and>
          Call_bfd_init \<notin> set rest \<and>
          count_list (calls (load_all e process_start reqs)) Call_bfd_init
            = (if reqs = [] then 0 else 1)"
proof (cases reqs)
  case Nil
  then show ?thesis
    by (intro exI [where x = "[]"]) (simp add: process_start_def)
next
  case (Cons req reqs')
  obtain fname bin ty where req: "req = (fname, bin, ty)"
    by (cases req) auto
  obtain cs where cs: "Call_bfd_init \<notin> set cs"
     "bfd_init_flag (fst (snd (load_binary e process_start fname bin ty))) = 1"
     "calls (fst (snd (load_binary e process_start fname bin ty))) = Call_bfd_init # cs"
    using load_binary_process [of e process_start fname bin ty]
    by (auto simp: process_start_def)
  obtain rest where rest:
    "calls (load_all e (fst (snd (load_binary e process_start fname bin ty))) reqs')
       = Call_bfd_init # rest" "Call_bfd_init \<notin> set rest"
    using load_all_initialised [of "fst (snd (load_binary e process_start fname bin ty))" cs e reqs'] cs
    by auto
  show ?thesis
    using rest by (intro exI [where x = rest]) (simp add: Cons req count_list_0_iff)
qed


end
